theory Spec2Isabelle
  imports Main "HOL-Library.Word"
begin

section \<open>Values, exceptions and the libraries the code calls\<close>

text \<open>
  The Python values that travel through the loader and the time-series adapter.
  A float is carried as its 64 bits: the code under study only tests its type and
  passes it on. A timestamp (\<open>datetime\<close>, pandas \<open>Timestamp\<close>) is carried as
  its nanoseconds since the epoch. A mapping keeps insertion order, so it is an
  association list with string keys. \<open>PObj\<close> is an instance of a typed-object
  class: the class name and the field values.
\<close>

datatype pyval =
    PNone
  | PBool bool
  | PInt int
  | PFloat "64 word"
  | PStr string
  | PTime int
  | PList "pyval list"
  | PSet "pyval list"
  | PDict "(string \<times> pyval) list"
  | PObj string "(string \<times> pyval) list"

text \<open>
  Exception classes, as far as the code tells them apart. Every one is a subclass
  of \<open>Exception\<close>, which is what \<open>except Exception\<close> catches; \<open>MySQLError\<close> is
  \<open>mysql.connector.Error\<close>, \<open>BackendError\<close> anything the time-series client raises.
\<close>

datatype exn_class =
    ValueError | SyntaxError | TypeError | KeyError | AttributeError | NameError
  | ValidationError | MySQLError | BackendError

text \<open>An exception: its class and its message (what \<open>str(e)\<close> gives).\<close>

datatype exn = Exn exn_class string

fun exn_msg :: "exn \<Rightarrow> string" where
  "exn_msg (Exn c m) = m"

fun exn_cls :: "exn \<Rightarrow> exn_class" where
  "exn_cls (Exn c m) = c"

text \<open>
  What the code calls and the repository does not define. \<open>py_str\<close> is the
  builtin \<open>str\<close> on floats, timestamps, containers and objects; \<open>py_strftime\<close> is
  \<open>x.strftime("%Y-%m-%dT%H:%M:%S.%fZ")\<close>, which raises on a value without that
  method; \<open>py_literal_eval\<close> is \<open>ast.literal_eval\<close>; \<open>pd_reshape\<close> is the
  reshaping done by pandas' \<open>DataFrame.pivot(...).reset_index()\<close> once the columns
  it is asked for are known to exist; \<open>pd_to_datetime\<close> and \<open>pd_tz_convert\<close> act on
  a whole column; \<open>py_model_dict\<close> is pydantic's \<open>BaseModel.dict()\<close> on an object
  of the given class and fields, whatever the installed version of pydantic
  makes of nested objects.
\<close>

text \<open>A pandas \<open>DataFrame\<close>, column by column: each column's name and its cells.\<close>

type_synonym frame = "(string \<times> pyval list) list"

record pylib =
  py_str :: "pyval \<Rightarrow> string"
  py_strftime :: "pyval \<Rightarrow> exn + string"
  py_literal_eval :: "string \<Rightarrow> exn + pyval"
  pd_reshape :: "frame \<Rightarrow> string list \<Rightarrow> string \<Rightarrow> string \<Rightarrow> exn + frame"
  pd_to_datetime :: "pyval list \<Rightarrow> exn + pyval list"
  pd_tz_convert :: "pyval list \<Rightarrow> exn + pyval list"
  py_model_dict :: "string \<Rightarrow> (string \<times> pyval) list \<Rightarrow> (string \<times> pyval) list"

text \<open>
  \<open>isinstance(value, (str, int, float))\<close>: \<open>bool\<close> is a subclass of \<open>int\<close> in
  Python, so a boolean passes the test.
\<close>

fun is_primitive :: "pyval \<Rightarrow> bool" where
  "is_primitive (PStr s) = True"
| "is_primitive (PInt i) = True"
| "is_primitive (PBool b) = True"
| "is_primitive (PFloat f) = True"
| "is_primitive v = False"

text \<open>Decimal digits of a natural number and of an integer, as \<open>str\<close> prints them.\<close>

function show_nat :: "nat \<Rightarrow> string" where
  "show_nat n =
     (if n < 10 then [char_of (48 + n)]
      else show_nat (n div 10) @ [char_of (48 + n mod 10)])"
  by pat_completeness auto
termination
  by (relation "measure (\<lambda>n. n)") auto

declare show_nat.simps [simp del]

definition show_int :: "int \<Rightarrow> string" where
  "show_int i = (if i < 0 then CHR ''-'' # show_nat (nat (- i)) else show_nat (nat i))"

text \<open>
  \<open>str(v)\<close>, also what an f-string puts for \<open>{v}\<close>: spelled out for the scalars,
  left to the library elsewhere.
\<close>

definition str_of :: "pylib \<Rightarrow> pyval \<Rightarrow> string" where
  "str_of lib v =
     (case v of
        PStr s \<Rightarrow> s
      | PNone \<Rightarrow> ''None''
      | PBool b \<Rightarrow> (if b then ''True'' else ''False'')
      | PInt i \<Rightarrow> show_int i
      | _ \<Rightarrow> py_str lib v)"

definition str_opt :: "string option \<Rightarrow> string" where
  "str_opt m = (case m of None \<Rightarrow> ''None'' | Some s \<Rightarrow> s)"

text \<open>\<open>sep.join(xs)\<close>.\<close>

fun py_join :: "string \<Rightarrow> string list \<Rightarrow> string" where
  "py_join sep [] = []"
| "py_join sep [x] = x"
| "py_join sep (x # y # ys) = x @ sep @ py_join sep (y # ys)"

text \<open>Dictionary access on an association list: the first binding of the key.\<close>

fun dict_get :: "(string \<times> pyval) list \<Rightarrow> string \<Rightarrow> pyval option" where
  "dict_get [] k = None"
| "dict_get ((k', v) # kvs) k = (if k' = k then Some v else dict_get kvs k)"

definition dict_has :: "(string \<times> pyval) list \<Rightarrow> string \<Rightarrow> bool" where
  "dict_has d k = (dict_get d k \<noteq> None)"

text \<open>\<open>d.pop(k)\<close> for a key that is present: the mapping without it.\<close>

definition dict_remove :: "(string \<times> pyval) list \<Rightarrow> string \<Rightarrow> (string \<times> pyval) list" where
  "dict_remove d k = filter (\<lambda>kv. fst kv \<noteq> k) d"

section \<open>Endpoint resolution\<close>


text \<open>
  \<open>str.split(sep)\<close> for a one-character separator: the pieces between the
  separators, in order; a string without separator gives one piece, the empty
  string gives one empty piece.
\<close>

fun split_acc :: "char \<Rightarrow> string \<Rightarrow> string \<Rightarrow> string list" where
  "split_acc c acc [] = [rev acc]"
| "split_acc c acc (x # xs) =
     (if x = c then rev acc # split_acc c [] xs else split_acc c (x # acc) xs)"

definition py_split :: "char \<Rightarrow> string \<Rightarrow> string list" where
  "py_split c s = split_acc c [] s"

text \<open>
  \<open>DBInfluxDB._resolve_bucket_measurement\<close>. \<open>self.name\<close> is truthy when it is a
  non-empty string. \<open>parts[0]\<close> always exists, \<open>parts[1]\<close> only when the endpoint
  has a slash.
\<close>

definition name_truthy :: "string option \<Rightarrow> bool" where
  "name_truthy nm = (case nm of None \<Rightarrow> False | Some n \<Rightarrow> n \<noteq> [])"

definition resolve_bucket_measurement ::
  "string option \<Rightarrow> string \<Rightarrow> string \<times> string option" where
  "resolve_bucket_measurement nm endpoint =
     (case nm of
        Some n \<Rightarrow>
          (if n \<noteq> [] then (n, Some endpoint)
           else (let parts = py_split CHR ''/'' endpoint
                 in (hd parts, if length parts > 1 then Some (parts ! 1) else None)))
      | None \<Rightarrow>
          (let parts = py_split CHR ''/'' endpoint
           in (hd parts, if length parts > 1 then Some (parts ! 1) else None)))"

text \<open>
  The resolution rule in the specification's words: with an explicit name, the
  name and the endpoint; otherwise the text before the first slash and the text
  after it, the measurement absent when there is no slash.
\<close>

definition spec_resolve :: "string option \<Rightarrow> string \<Rightarrow> string \<times> string option" where
  "spec_resolve nm endpoint =
     (if name_truthy nm then (the nm, Some endpoint)
      else (takeWhile (\<lambda>x. x \<noteq> CHR ''/'') endpoint,
            if CHR ''/'' \<in> set endpoint
            then Some (tl (dropWhile (\<lambda>x. x \<noteq> CHR ''/'') endpoint))
            else None))"

section \<open>The time-series adapter\<close>

subsection \<open>The adapter, its backend and what it emits\<close>

text \<open>
  The fields of the adapter that the operations read: its name, whether a logger
  is attached, the organisation of its configuration, and whether the client
  handle \<open>bkd\<close> has been set by \<open>connect\<close>.
\<close>

record adapter =
  ad_name :: "string option"
  ad_logger :: bool
  ad_org :: "string option"
  ad_bkd :: bool

datatype log_level = LDebug | LInfo | LError

text \<open>What an operation emits: a log record, or a line printed on standard output.\<close>

datatype event = Log log_level string | Print string

definition emit :: "adapter \<Rightarrow> log_level \<Rightarrow> string \<Rightarrow> event list" where
  "emit ad lvl msg = (if ad_logger ad then [Log lvl msg] else [])"

text \<open>One point handed to the client: the calls made on \<open>Point\<close>, in order.\<close>

record point =
  pt_measurement :: pyval
  pt_time :: "pyval option"
  pt_tags :: "(string \<times> pyval) list"
  pt_fields :: "(string \<times> pyval) list"

text \<open>
  The answers of the store. Every call either returns or raises; an operation
  makes each call at most once, so an answer per call is enough. \<open>bk_client\<close> is
  the construction of the client object; \<open>bk_ping\<close> is the client's \<open>ping()\<close>,
  which returns whether the server answered (the client library catches the
  errors of the request itself and returns \<open>False\<close>) or raises; \<open>bk_find_bucket\<close>
  tells whether the bucket exists; \<open>bk_query\<close> returns tables of records, each
  record a mapping.
\<close>

record backend =
  bk_client :: "exn option"
  bk_ping :: "exn + bool"
  bk_find_bucket :: "string option \<Rightarrow> exn + bool"
  bk_create_bucket :: "string \<Rightarrow> string option \<Rightarrow> exn option"
  bk_delete_bucket :: "string option \<Rightarrow> exn option"
  bk_write :: "string \<Rightarrow> point list \<Rightarrow> exn option"
  bk_delete :: "string \<Rightarrow> string \<Rightarrow> string \<Rightarrow> string \<Rightarrow> string option \<Rightarrow> exn option"
  bk_query :: "string \<Rightarrow> exn + (string \<times> pyval) list list list"
  bk_mysql_connect :: "exn option"

subsection \<open>connect\<close>

text \<open>
  What a \<open>connect\<close> hands back: the adapter itself, or a boolean.
\<close>

datatype connect_ret = RetSelf | RetBool bool

text \<open>
  \<open>DBInfluxDB.connect\<close>: the client is built outside the \<open>try\<close>; the ping is
  inside it, and what it returns is not looked at: success is logged whenever
  the ping returns. The second component is the adapter after the call.
\<close>

definition influx_connect ::
  "backend \<Rightarrow> adapter \<Rightarrow> (exn + connect_ret) \<times> adapter \<times> event list" where
  "influx_connect bk ad =
     (case bk_client bk of
        Some e \<Rightarrow> (Inl e, ad, [])
      | None \<Rightarrow>
          (let ad' = ad\<lparr>ad_bkd := True\<rparr> in
           case bk_ping bk of
             Inr answered \<Rightarrow>
               (Inr RetSelf, ad', emit ad LInfo ''InfluxDB connected successfully'')
           | Inl e \<Rightarrow>
               (Inr RetSelf, ad',
                emit ad LError (''Failed to connect to InfluxDB: '' @ exn_msg e))))"

text \<open>
  \<open>DBMySQL.connect\<close>: the whole call is inside the \<open>try\<close>, and the handler
  catches \<open>mysql.connector.Error\<close> only. \<open>bk_mysql_connect\<close> is the outcome of
  evaluating \<open>mysql.connector.connect(...)\<close>, its arguments included.
\<close>

definition mysql_connect ::
  "backend \<Rightarrow> adapter \<Rightarrow> (exn + connect_ret) \<times> adapter \<times> event list" where
  "mysql_connect bk ad =
     (case bk_mysql_connect bk of
        None \<Rightarrow>
          (Inr (RetBool True), ad\<lparr>ad_bkd := True\<rparr>,
           emit ad LInfo ''Connection to MySQL DB successful'')
      | Some e \<Rightarrow>
          (if exn_cls e = MySQLError
           then (Inr (RetBool False), ad,
                 emit ad LError (''Error connecting to MySQL DB: '' @ exn_msg e))
           else (Inl e, ad, [])))"

subsection \<open>put\<close>

text \<open>\<open>DBInfluxDB._ensure_bucket_exists\<close>: no handler around either call.\<close>

definition ensure_bucket_exists ::
  "backend \<Rightarrow> adapter \<Rightarrow> string \<Rightarrow> (exn + unit) \<times> event list" where
  "ensure_bucket_exists bk ad bucket_name =
     (case bk_find_bucket bk (Some bucket_name) of
        Inl e \<Rightarrow> (Inl e, [])
      | Inr found \<Rightarrow>
          (if \<not> found then
             (let ev = emit ad LInfo (''Creating bucket '' @ [CHR 0x27] @ bucket_name
                                      @ [CHR 0x27] @ ''.'') in
              case bk_create_bucket bk bucket_name (ad_org ad) of
                Some e \<Rightarrow> (Inl e, ev)
              | None \<Rightarrow> (Inr (), ev))
           else (Inr (), [])))"

definition opt_str :: "string option \<Rightarrow> pyval" where
  "opt_str m = (case m of None \<Rightarrow> PNone | Some s \<Rightarrow> PStr s)"

text \<open>
  The loop over \<open>index\<close>: for an index key present in the record and different
  from the time field, \<open>idx = str(value)\<close> when the value is not primitive, then
  \<open>point.tag(idx, value)\<close>.
\<close>

fun tag_calls ::
  "pylib \<Rightarrow> string \<Rightarrow> (string \<times> pyval) list \<Rightarrow> string list \<Rightarrow> (string \<times> pyval) list" where
  "tag_calls lib time_field item [] = []"
| "tag_calls lib time_field item (idx # rest) =
     (case dict_get item idx of
        Some v \<Rightarrow>
          (if idx \<noteq> time_field
           then (if \<not> is_primitive v then str_of lib v else idx, v)
                # tag_calls lib time_field item rest
           else tag_calls lib time_field item rest)
      | None \<Rightarrow> tag_calls lib time_field item rest)"

text \<open>
  The loop over \<open>item.items()\<close>: a key outside \<open>index\<close>, not \<open>measurement\<close> and not
  the time field becomes a field, \<open>value = str(value)\<close> when the value is not
  primitive.
\<close>

fun field_calls ::
  "pylib \<Rightarrow> string list \<Rightarrow> string \<Rightarrow> (string \<times> pyval) list \<Rightarrow> (string \<times> pyval) list" where
  "field_calls lib index time_field [] = []"
| "field_calls lib index time_field ((key, v) # rest) =
     (if key \<notin> set index \<and> key \<noteq> ''measurement'' \<and> key \<noteq> time_field
      then (key, if \<not> is_primitive v then PStr (str_of lib v) else v)
           # field_calls lib index time_field rest
      else field_calls lib index time_field rest)"

definition build_point ::
  "pylib \<Rightarrow> string option \<Rightarrow> string list \<Rightarrow> string \<Rightarrow> (string \<times> pyval) list \<Rightarrow> point" where
  "build_point lib measurement index time_field item =
     \<lparr> pt_measurement =
         (case dict_get item ''measurement'' of Some m \<Rightarrow> m | None \<Rightarrow> opt_str measurement),
       pt_time = dict_get item time_field,
       pt_tags = tag_calls lib time_field item index,
       pt_fields = field_calls lib index time_field item \<rparr>"

record outcome =
  success_count :: nat
  failure_count :: nat

definition put_points ::
  "pylib \<Rightarrow> adapter \<Rightarrow> string \<Rightarrow> (string \<times> pyval) list list \<Rightarrow> string list \<Rightarrow> string
     \<Rightarrow> point list" where
  "put_points lib ad endpoint data index time_field =
     map (build_point lib (snd (resolve_bucket_measurement (ad_name ad) endpoint))
            index time_field) data"

text \<open>
  \<open>DBInfluxDB.put\<close>: resolution, bucket provisioning and point construction are
  outside the \<open>try\<close>; the single write is inside it, and its handler logs, prints
  and returns the counts.
\<close>

definition put ::
  "pylib \<Rightarrow> backend \<Rightarrow> adapter \<Rightarrow> string \<Rightarrow> (string \<times> pyval) list list \<Rightarrow> string list
     \<Rightarrow> string \<Rightarrow> (exn + outcome) \<times> event list" where
  "put lib bk ad endpoint data index time_field =
     (let bucket = fst (resolve_bucket_measurement (ad_name ad) endpoint) in
      case ensure_bucket_exists bk ad bucket of
        (Inl e, ev) \<Rightarrow> (Inl e, ev)
      | (Inr u, ev) \<Rightarrow>
          (let points = put_points lib ad endpoint data index time_field in
           case bk_write bk bucket points of
             None \<Rightarrow> (Inr \<lparr>success_count = length data, failure_count = 0\<rparr>, ev)
           | Some e \<Rightarrow>
               (Inr \<lparr>success_count = 0, failure_count = length data\<rparr>,
                ev @ emit ad LError (''Failed to put data in InfluxDB: '' @ exn_msg e)
                   @ [Print (''Erreur: '' @ exn_msg e)])))"

subsection \<open>update, reset, delete\<close>

definition show_outcome :: "outcome \<Rightarrow> string" where
  "show_outcome r =
     ''{'' @ [CHR 0x27] @ ''success_count'' @ [CHR 0x27] @ '': '' @ show_nat (success_count r)
     @ '', '' @ [CHR 0x27] @ ''failure_count'' @ [CHR 0x27] @ '': ''
     @ show_nat (failure_count r) @ ''}''"

text \<open>\<open>DBInfluxDB.update\<close>: a \<open>put\<close> of the one record, outside any handler.\<close>

definition update ::
  "pylib \<Rightarrow> backend \<Rightarrow> adapter \<Rightarrow> string \<Rightarrow> (string \<times> pyval) list \<Rightarrow> string list
     \<Rightarrow> string \<Rightarrow> (exn + bool) \<times> event list" where
  "update lib bk ad endpoint item index time_field =
     (case put lib bk ad endpoint [item] index time_field of
        (Inl e, ev) \<Rightarrow> (Inl e, ev)
      | (Inr r, ev) \<Rightarrow>
          (if failure_count r > 0
           then (Inr False,
                 ev @ emit ad LError (''Failed to update data in InfluxDB: '' @ show_outcome r))
           else (Inr True,
                 ev @ emit ad LInfo (''Data updated in InfluxDB: '' @ show_outcome r))))"

text \<open>
  \<open>DBInfluxDB.reset\<close>: the lookup of the bucket is outside the \<open>try\<close>; the handler
  around the deletion logs the exception and raises it again.
\<close>

definition reset ::
  "backend \<Rightarrow> adapter \<Rightarrow> string option \<Rightarrow> (exn + unit) \<times> event list" where
  "reset bk ad endpoint =
     (let bucket = (case endpoint of
                      None \<Rightarrow> ad_name ad
                    | Some ep \<Rightarrow> Some (fst (resolve_bucket_measurement (ad_name ad) ep))) in
      case bk_find_bucket bk bucket of
        Inl e \<Rightarrow> (Inl e, [])
      | Inr found \<Rightarrow>
          (if found then
             (case bk_delete_bucket bk bucket of
                None \<Rightarrow>
                  (Inr (), emit ad LInfo (''Deleted bucket '' @ [CHR 0x27] @ str_opt bucket
                                          @ [CHR 0x27] @ ''.''))
              | Some e \<Rightarrow>
                  (Inl e, emit ad LError (''Failed to delete bucket: '' @ exn_msg e)))
           else (Inr (), [])))"

definition delete_predicate ::
  "pylib \<Rightarrow> string option \<Rightarrow> (string \<times> pyval) list \<Rightarrow> string" where
  \<open>delete_predicate lib measurement tags =
     ''_measurement="'' @ str_opt measurement @ ''"''
     @ concat (map (\<lambda>(tag_key, tag_value).
                      '' AND '' @ tag_key @ ''="'' @ str_of lib tag_value @ ''"'') tags)\<close>

text \<open>
  \<open>DBInfluxDB.delete\<close>: both \<open>strftime\<close> calls and the deletion are inside the
  \<open>try\<close>, whose handler logs and returns \<open>False\<close>.
\<close>

definition delete_failed :: "adapter \<Rightarrow> exn \<Rightarrow> (exn + bool) \<times> event list" where
  "delete_failed ad e = (Inr False, emit ad LError (''Failed to delete data: '' @ exn_msg e))"

definition delete ::
  "pylib \<Rightarrow> backend \<Rightarrow> adapter \<Rightarrow> string \<Rightarrow> pyval \<Rightarrow> pyval \<Rightarrow> (string \<times> pyval) list
     \<Rightarrow> (exn + bool) \<times> event list" where
  "delete lib bk ad endpoint start_timestamp stop_timestamp tags =
     (let bucket = fst (resolve_bucket_measurement (ad_name ad) endpoint);
          measurement = snd (resolve_bucket_measurement (ad_name ad) endpoint);
          predicate = delete_predicate lib measurement tags in
      case py_strftime lib start_timestamp of
        Inl e \<Rightarrow> delete_failed ad e
      | Inr formatted_start \<Rightarrow>
          (case py_strftime lib stop_timestamp of
             Inl e \<Rightarrow> delete_failed ad e
           | Inr formatted_stop \<Rightarrow>
               (case bk_delete bk formatted_start formatted_stop predicate bucket (ad_org ad) of
                  Some e \<Rightarrow> delete_failed ad e
                | None \<Rightarrow>
                    (Inr True,
                     emit ad LInfo (''Deleted data in bucket '' @ [CHR 0x27] @ bucket
                       @ [CHR 0x27] @ '' between '' @ [CHR 0x27] @ formatted_start
                       @ [CHR 0x27] @ '' and '' @ [CHR 0x27] @ formatted_stop @ [CHR 0x27]
                       @ '' with predicate '' @ [CHR 0x27] @ predicate @ [CHR 0x27]
                       @ ''.'')))))"

subsection \<open>get: the query\<close>

definition measurement_truthy :: "string option \<Rightarrow> bool" where
  "measurement_truthy m = (case m of None \<Rightarrow> False | Some s \<Rightarrow> s \<noteq> [])"

text \<open>
  The query text of \<open>DBInfluxDB.get\<close>, built by the successive \<open>query += ...\<close>
  of the source.
\<close>

definition get_query ::
  "pylib \<Rightarrow> string \<Rightarrow> string option \<Rightarrow> (string \<times> pyval) list \<Rightarrow> string list \<Rightarrow> int
     \<Rightarrow> string" where
  \<open>get_query lib bucket measurement flt projection limit =
     (let q0 = ''from(bucket: "'' @ bucket @ ''") |> range(start: 0)'';
          q1 = (if measurement_truthy measurement
                then q0 @ '' |> filter(fn: (r) => r._measurement == "''
                        @ str_opt measurement @ ''")''
                else q0);
          filter_conditions =
            map (\<lambda>(k, v). ''r["'' @ k @ ''"] == "'' @ str_of lib v @ ''"'') flt;
          q2 = (if filter_conditions \<noteq> []
                then q1 @ '' |> filter(fn: (r) => '' @ py_join '' and '' filter_conditions
                        @ '')''
                else q1);
          q3 = (if projection \<noteq> []
                then (let fields_filter =
                            py_join '' or ''
                              (map (\<lambda>field. ''r._field == "'' @ field @ ''"'') projection)
                      in q2 @ '' |> filter(fn: (r) => '' @ fields_filter @ '')'')
                else q2);
          q4 = (if limit > 0
                then q3 @ '' |> limit(n: '' @ show_int limit @ '')''
                else q3)
      in q4)\<close>

text \<open>
  The clauses in the specification's words and order: the bucket over the full
  time range; the measurement filter if a measurement is known; one filter of
  the equalities joined by \<open>and\<close> if the filter mapping is not empty; one filter of
  the field names joined by \<open>or\<close> if the projection is not empty; the limit if it
  is positive.
\<close>

definition bucket_clause :: "string \<Rightarrow> string" where
  \<open>bucket_clause bucket = ''from(bucket: "'' @ bucket @ ''") |> range(start: 0)''\<close>

definition measurement_clause :: "string \<Rightarrow> string" where
  \<open>measurement_clause m = '' |> filter(fn: (r) => r._measurement == "'' @ m @ ''")''\<close>

definition equality :: "pylib \<Rightarrow> string \<times> pyval \<Rightarrow> string" where
  \<open>equality lib kv = ''r["'' @ fst kv @ ''"] == "'' @ str_of lib (snd kv) @ ''"''\<close>

definition filter_clause :: "pylib \<Rightarrow> (string \<times> pyval) list \<Rightarrow> string" where
  \<open>filter_clause lib flt =
     '' |> filter(fn: (r) => '' @ py_join '' and '' (map (equality lib) flt) @ '')''\<close>

definition field_equality :: "string \<Rightarrow> string" where
  \<open>field_equality f = ''r._field == "'' @ f @ ''"''\<close>

definition projection_clause :: "string list \<Rightarrow> string" where
  \<open>projection_clause projection =
     '' |> filter(fn: (r) => '' @ py_join '' or '' (map field_equality projection) @ '')''\<close>

definition limit_clause :: "int \<Rightarrow> string" where
  \<open>limit_clause limit = '' |> limit(n: '' @ show_int limit @ '')''\<close>

definition spec_query_clauses ::
  "pylib \<Rightarrow> string \<Rightarrow> string option \<Rightarrow> (string \<times> pyval) list \<Rightarrow> string list \<Rightarrow> int
     \<Rightarrow> string list" where
  "spec_query_clauses lib bucket measurement flt projection limit =
     [bucket_clause bucket]
     @ (if measurement_truthy measurement then [measurement_clause (str_opt measurement)] else [])
     @ (if flt \<noteq> [] then [filter_clause lib flt] else [])
     @ (if projection \<noteq> [] then [projection_clause projection] else [])
     @ (if limit > 0 then [limit_clause limit] else [])"

subsection \<open>get: reading back and reshaping\<close>

text \<open>
  \<open>try_convert_to_dict\<close>: a string that starts with an opening brace and ends
  with a closing brace is handed to \<open>ast.literal_eval\<close>; the handler catches
  \<open>ValueError\<close> and \<open>SyntaxError\<close> and nothing else.
\<close>

definition startswith_brace :: "string \<Rightarrow> bool" where
  "startswith_brace s = (case s of [] \<Rightarrow> False | c # cs \<Rightarrow> c = CHR ''{'')"

definition endswith_brace :: "string \<Rightarrow> bool" where
  "endswith_brace s = (case rev s of [] \<Rightarrow> False | c # cs \<Rightarrow> c = CHR ''}'')"

definition try_convert_to_dict :: "pylib \<Rightarrow> pyval \<Rightarrow> exn + pyval" where
  "try_convert_to_dict lib x =
     (case x of
        PStr s \<Rightarrow>
          (if startswith_brace s \<and> endswith_brace s then
             (case py_literal_eval lib s of
                Inr v \<Rightarrow> Inr v
              | Inl e \<Rightarrow>
                  (if exn_cls e = ValueError \<or> exn_cls e = SyntaxError then Inr x
                   else Inl e))
           else Inr x)
      | _ \<Rightarrow> Inr x)"

text \<open>A loop that stops at the first exception.\<close>

fun map_exn :: "('a \<Rightarrow> exn + 'b) \<Rightarrow> 'a list \<Rightarrow> exn + 'b list" where
  "map_exn f [] = Inr []"
| "map_exn f (x # xs) =
     (case f x of
        Inl e \<Rightarrow> Inl e
      | Inr y \<Rightarrow> (case map_exn f xs of Inl e \<Rightarrow> Inl e | Inr ys \<Rightarrow> Inr (y # ys)))"

text \<open>The missing value of pandas: a quiet NaN.\<close>

definition nan :: pyval where
  "nan = PFloat 0x7FF8000000000000"

text \<open>Keys in the order of their first appearance.\<close>

fun first_seen :: "string list \<Rightarrow> string list \<Rightarrow> string list" where
  "first_seen seen [] = []"
| "first_seen seen (k # ks) =
     (if k \<in> set seen then first_seen seen ks else k # first_seen (k # seen) ks)"

text \<open>
  \<open>pd.DataFrame(data)\<close> for a list of mappings: one column per key, in the order
  the keys first appear; a record without the key has a missing value there. No
  record, no column.
\<close>

definition data_frame :: "(string \<times> pyval) list list \<Rightarrow> frame" where
  "data_frame data =
     map (\<lambda>c. (c, map (\<lambda>r. case dict_get r c of Some v \<Rightarrow> v | None \<Rightarrow> nan) data))
       (first_seen [] (concat (map (map fst) data)))"

definition not_tag_fields :: "string list" where
  "not_tag_fields =
     [''result'', ''table'', ''_start'', ''_stop'', ''_time'', ''_value'', ''_field'',
      ''_measurement'']"

text \<open>
  \<open>df.pivot(index, columns, values).reset_index()\<close>: pandas first reads the index
  columns, then the \<open>columns\<close> column, then the \<open>values\<close> column, and raises
  \<open>KeyError\<close> at the first one the frame does not have; the reshaping proper is
  the library's.
\<close>

definition pd_pivot ::
  "pylib \<Rightarrow> frame \<Rightarrow> string list \<Rightarrow> string \<Rightarrow> string \<Rightarrow> exn + frame" where
  "pd_pivot lib df index columns vals =
     (case filter (\<lambda>c. c \<notin> set (map fst df)) (index @ [columns, vals]) of
        c # cs \<Rightarrow> Inl (Exn KeyError c)
      | [] \<Rightarrow> pd_reshape lib df index columns vals)"

text \<open>\<open>df[c] = f(df[c])\<close>: reading a column the frame does not have raises.\<close>

definition update_column ::
  "(pyval list \<Rightarrow> exn + pyval list) \<Rightarrow> string \<Rightarrow> frame \<Rightarrow> exn + frame" where
  "update_column f c df =
     (case map_of df c of
        None \<Rightarrow> Inl (Exn KeyError c)
      | Some cells \<Rightarrow>
          (case f cells of
             Inl e \<Rightarrow> Inl e
           | Inr cells' \<Rightarrow> Inr (map (\<lambda>(c', old). (c', if c' = c then cells' else old)) df)))"

text \<open>\<open>df.map(f)\<close>: \<open>f\<close> on every cell, column after column.\<close>

definition frame_map :: "(pyval \<Rightarrow> exn + pyval) \<Rightarrow> frame \<Rightarrow> exn + frame" where
  "frame_map f df =
     map_exn (\<lambda>(c, cells). case map_exn f cells of Inl e \<Rightarrow> Inl e | Inr cells' \<Rightarrow> Inr (c, cells'))
       df"

definition rename_column :: "string \<Rightarrow> string \<Rightarrow> frame \<Rightarrow> frame" where
  "rename_column old new df = map (\<lambda>(c, cells). (if c = old then new else c, cells)) df"

text \<open>\<open>df.to_dict("records")\<close>: one mapping per row.\<close>

definition to_records :: "frame \<Rightarrow> (string \<times> pyval) list list" where
  "to_records df =
     (let n = (case df of [] \<Rightarrow> 0 | (c, cells) # cols \<Rightarrow> length cells)
      in map (\<lambda>i. map (\<lambda>(c, cells). (c, if i < length cells then cells ! i else nan)) df)
           [0..<n])"

datatype get_result = AsFrame frame | AsRecords "(string \<times> pyval) list list"

text \<open>
  The frame before the cell-by-cell conversion: the records of all tables, the
  frame made of them, the pivot on the tag columns and \<open>_time\<close>, the timestamps
  parsed and, on request, put in the local zone. No handler anywhere.
\<close>

definition get_wide ::
  "pylib \<Rightarrow> (string \<times> pyval) list list list \<Rightarrow> bool \<Rightarrow> exn + frame" where
  "get_wide lib result use_local_tz =
     (let data = concat result;
          df = data_frame data;
          tag_fields = filter (\<lambda>var. var \<notin> set not_tag_fields) (map fst df) in
      case pd_pivot lib df (tag_fields @ [''_time'']) ''_field'' ''_value'' of
        Inl e \<Rightarrow> Inl e
      | Inr wide_df \<Rightarrow>
          (case update_column (pd_to_datetime lib) ''_time'' wide_df of
             Inl e \<Rightarrow> Inl e
           | Inr wide_df1 \<Rightarrow>
               (if use_local_tz then update_column (pd_tz_convert lib) ''_time'' wide_df1
                else Inr wide_df1)))"

text \<open>
  \<open>DBInfluxDB.get\<close>. The \<open>try\<close> around the body is commented out in the source,
  so every exception of the query and of the reshaping reaches the caller.
\<close>

definition get ::
  "pylib \<Rightarrow> backend \<Rightarrow> adapter \<Rightarrow> string \<Rightarrow> (string \<times> pyval) list \<Rightarrow> string list \<Rightarrow> int
     \<Rightarrow> string \<Rightarrow> bool \<Rightarrow> bool \<Rightarrow> (exn + get_result) \<times> event list" where
  "get lib bk ad endpoint flt projection limit time_field as_df use_local_tz =
     (let bucket = fst (resolve_bucket_measurement (ad_name ad) endpoint);
          measurement = snd (resolve_bucket_measurement (ad_name ad) endpoint);
          ev1 = emit ad LDebug (''Retrieving data from bucket: '' @ bucket
                  @ '', measurement: '' @ str_opt measurement);
          query = get_query lib bucket measurement flt projection limit;
          ev2 = ev1 @ emit ad LDebug (''Constructed InfluxDB Query: '' @ query) in
      case bk_query bk query of
        Inl e \<Rightarrow> (Inl e, ev2)
      | Inr result \<Rightarrow>
          (case get_wide lib result use_local_tz of
             Inl e \<Rightarrow> (Inl e, ev2)
           | Inr wide_df \<Rightarrow>
               (case frame_map (try_convert_to_dict lib) wide_df of
                  Inl e \<Rightarrow> (Inl e, ev2)
                | Inr converted \<Rightarrow>
                    (let final = (if time_field \<noteq> ''_time''
                                  then rename_column ''_time'' time_field converted
                                  else converted);
                         ev3 = ev2 @ emit ad LInfo (''Retrieved ''
                                 @ show_nat (length (concat result))
                                 @ '' records from InfluxDB.'')
                     in (Inr (if as_df then AsFrame final else AsRecords (to_records final)),
                         ev3)))))"

section \<open>The object loader\<close>

text \<open>
  The names that \<open>core.py\<close> binds at module level: its five imports, the set
  \<open>installed_pkg\<close>, the optional import \<open>ipdb\<close> and the class \<open>ObjCore\<close>. A
  global name that a function of the module uses is looked up here and then in
  the builtins; when it is in neither, Python raises \<open>NameError\<close>.
\<close>

definition core_globals :: "string list" where
  "core_globals =
     [''pydantic'', ''pkg_resources'', ''copy'', ''typing'', ''yaml'', ''installed_pkg'',
      ''ipdb'', ''ObjCore'']"

definition name_error :: "string \<Rightarrow> exn" where
  "name_error n = Exn NameError (''name '' @ [CHR 0x27] @ n @ [CHR 0x27] @ '' is not defined'')"

text \<open>
  The subclass table that \<open>ObjMOSAIC.get_subclasses()\<close> would give if the name
  \<open>ObjMOSAIC\<close> were bound: the name of the root type and, for each subclass in
  the order they are listed, its name and its constructor \<open>cls(**fields)\<close>, which
  is pydantic's and may raise.
\<close>

type_synonym ctor = "(string \<times> pyval) list \<Rightarrow> exn + pyval"

record registry =
  reg_root :: string
  reg_classes :: "(string \<times> ctor) list"

text \<open>
  \<open>{cls.__name__: cls for cls in ...}\<close>: of two subclasses with one name the
  later one stays.
\<close>

definition cls_sub_dict :: "registry \<Rightarrow> string \<Rightarrow> ctor option" where
  "cls_sub_dict reg = map_of (rev (reg_classes reg))"

text \<open>
  Whether a value can be a dictionary key. Lists, sets and mappings cannot, and
  neither can a pydantic model, which defines equality and no hash.
\<close>

fun hashable :: "pyval \<Rightarrow> bool" where
  "hashable (PList xs) = False"
| "hashable (PSet xs) = False"
| "hashable (PDict d) = False"
| "hashable (PObj n fs) = False"
| "hashable v = True"

text \<open>
  Lines 60 to 70 of \<open>core.py\<close>, run when the built mapping has a \<open>cls\<close> key. The
  first of them evaluates \<open>ObjMOSAIC.get_subclasses()\<close>, and with it the global
  name \<open>ObjMOSAIC\<close>; only then is \<open>clsname\<close> popped, looked up, and the class
  called on what remains.
\<close>

definition construct ::
  "pylib \<Rightarrow> registry \<Rightarrow> (string \<times> pyval) list \<Rightarrow> exn + pyval" where
  "construct lib reg obj_copy =
     (if ''ObjMOSAIC'' \<notin> set core_globals then Inl (name_error ''ObjMOSAIC'')
      else
        (case dict_get obj_copy ''cls'' of
           None \<Rightarrow> Inl (Exn KeyError ''cls'')
         | Some clsname \<Rightarrow>
             (let remaining = dict_remove obj_copy ''cls'' in
              if \<not> hashable clsname then Inl (Exn TypeError ''unhashable type'')
              else (case (case clsname of PStr n \<Rightarrow> cls_sub_dict reg n | _ \<Rightarrow> None) of
                      None \<Rightarrow>
                        Inl (Exn ValueError
                               (str_of lib clsname @ '' is not a subclass of '' @ reg_root reg))
                    | Some cls \<Rightarrow> cls remaining))))"

text \<open>
  \<open>ObjCore.from_dict\<close>. For a mapping every value of a deep copy is built first,
  in order; with a \<open>cls\<close> key lines 60 to 70 run on the built values; without
  one the function falls through to its last line and returns
  the mapping it was given. For a list every element is replaced by what is
  built from it. Anything else is returned as it is.
\<close>

fun from_dict :: "pylib \<Rightarrow> registry \<Rightarrow> pyval \<Rightarrow> exn + pyval"
  and from_dict_items ::
    "pylib \<Rightarrow> registry \<Rightarrow> (string \<times> pyval) list \<Rightarrow> exn + (string \<times> pyval) list"
  and from_dict_list :: "pylib \<Rightarrow> registry \<Rightarrow> pyval list \<Rightarrow> exn + pyval list" where
  "from_dict lib reg (PDict d) =
     (case from_dict_items lib reg d of
        Inl e \<Rightarrow> Inl e
      | Inr obj_copy \<Rightarrow>
          (if dict_has obj_copy ''cls'' then construct lib reg obj_copy
           else Inr (PDict d)))"
| "from_dict lib reg (PList xs) =
     (case from_dict_list lib reg xs of Inl e \<Rightarrow> Inl e | Inr ys \<Rightarrow> Inr (PList ys))"
| "from_dict lib reg PNone = Inr PNone"
| "from_dict lib reg (PBool b) = Inr (PBool b)"
| "from_dict lib reg (PInt i) = Inr (PInt i)"
| "from_dict lib reg (PFloat f) = Inr (PFloat f)"
| "from_dict lib reg (PStr s) = Inr (PStr s)"
| "from_dict lib reg (PTime t) = Inr (PTime t)"
| "from_dict lib reg (PSet xs) = Inr (PSet xs)"
| "from_dict lib reg (PObj n fs) = Inr (PObj n fs)"
| "from_dict_items lib reg [] = Inr []"
| "from_dict_items lib reg (kv # kvs) =
     (case from_dict lib reg (snd kv) of
        Inl e \<Rightarrow> Inl e
      | Inr v' \<Rightarrow>
          (case from_dict_items lib reg kvs of
             Inl e \<Rightarrow> Inl e
           | Inr kvs' \<Rightarrow> Inr ((fst kv, v') # kvs')))"
| "from_dict_list lib reg [] = Inr []"
| "from_dict_list lib reg (x # xs) =
     (case from_dict lib reg x of
        Inl e \<Rightarrow> Inl e
      | Inr y \<Rightarrow>
          (case from_dict_list lib reg xs of
             Inl e \<Rightarrow> Inl e
           | Inr ys \<Rightarrow> Inr (y # ys)))"

text \<open>
  \<open>dict({"cls": name}, **fields)\<close>: the discriminator comes first; a field that
  is itself called \<open>cls\<close> takes its place.
\<close>

definition merge_cls :: "string \<Rightarrow> (string \<times> pyval) list \<Rightarrow> (string \<times> pyval) list" where
  "merge_cls n fs =
     (case dict_get fs ''cls'' of
        Some v \<Rightarrow> (''cls'', v) # dict_remove fs ''cls''
      | None \<Rightarrow> (''cls'', PStr n) # fs)"

text \<open>
  \<open>ObjCore.dict\<close> on an object of class \<open>n\<close> with fields \<open>fs\<close>: the class name
  merged with what pydantic's \<open>dict()\<close> gives for the object.
\<close>

definition to_document :: "pylib \<Rightarrow> string \<Rightarrow> (string \<times> pyval) list \<Rightarrow> pyval" where
  "to_document lib n fs = PDict (merge_cls n (py_model_dict lib n fs))"

text \<open>
  A class whose constructor keeps the fields it is given, such as a model
  that allows extra fields of any type.
\<close>

definition plain_ctor :: "string \<Rightarrow> ctor" where
  "plain_ctor n = (\<lambda>fs. Inr (PObj n fs))"

section \<open>Concrete inputs\<close>

text \<open>
  A library for the examples. Of \<open>ast.literal_eval\<close> it holds three facts of
  Python: a mapping literal is parsed, a mapping literal with a list as key
  raises \<open>TypeError\<close> (a list cannot be hashed), and text that is no literal
  raises \<open>SyntaxError\<close>. \<open>strftime\<close> exists on timestamps only.
\<close>

definition example_lib :: pylib where
  \<open>example_lib =
     \<lparr> py_str = (\<lambda>v. ''<value>''),
       py_strftime = (\<lambda>v. case v of
                              PTime t \<Rightarrow> Inr ''1970-01-01T00:00:00.000000Z''
                            | _ \<Rightarrow> Inl (Exn AttributeError ''no attribute strftime'')),
       py_literal_eval =
         (\<lambda>s. if s = ''{"a": 1}'' then Inr (PDict [(''a'', PInt 1)])
              else if s = ''{[1]: 2}'' then Inl (Exn TypeError ''unhashable type: list'')
              else Inl (Exn SyntaxError ''invalid syntax'')),
       pd_reshape = (\<lambda>df index columns vals. Inr df),
       pd_to_datetime = (\<lambda>cells. Inr cells),
       pd_tz_convert = (\<lambda>cells. Inr cells),
       py_model_dict = (\<lambda>n fs. fs) \<rparr>\<close>

text \<open>A store in which every call succeeds and the bucket exists.\<close>

definition ok_backend :: backend where
  "ok_backend =
     \<lparr> bk_client = None,
       bk_ping = Inr True,
       bk_find_bucket = (\<lambda>b. Inr True),
       bk_create_bucket = (\<lambda>b org. None),
       bk_delete_bucket = (\<lambda>b. None),
       bk_write = (\<lambda>b ps. None),
       bk_delete = (\<lambda>start stop predicate b org. None),
       bk_query = (\<lambda>q. Inr []),
       bk_mysql_connect = None \<rparr>"

definition boom :: exn where
  "boom = Exn BackendError ''boom''"

text \<open>Stores in which one call raises.\<close>

definition write_fails :: backend where
  "write_fails = ok_backend\<lparr>bk_write := (\<lambda>b ps. Some boom)\<rparr>"

definition delete_bucket_fails :: backend where
  "delete_bucket_fails = ok_backend\<lparr>bk_delete_bucket := (\<lambda>b. Some boom)\<rparr>"



definition adapter0 :: adapter where
  "adapter0 = \<lparr> ad_name = None, ad_logger = True, ad_org = None, ad_bkd = True \<rparr>"

definition adapter_db :: adapter where
  "adapter_db = \<lparr> ad_name = Some ''db'', ad_logger = True, ad_org = None, ad_bkd = True \<rparr>"

text \<open>A class table with one class, \<open>A\<close>, under a root type called \<open>ObjMOSAIC\<close>.\<close>

definition registry0 :: registry where
  "registry0 = \<lparr> reg_root = ''ObjMOSAIC'', reg_classes = [(''A'', plain_ctor ''A'')] \<rparr>"

definition delete_fails :: backend where
  "delete_fails = ok_backend\<lparr>bk_delete := (\<lambda>start stop predicate b org. Some boom)\<rparr>"


section \<open>Properties of endpoint resolution\<close>

subsection \<open>Facts about splitting\<close>


lemma split_acc_nonempty: "split_acc c acc s \<noteq> []"
  by (induction s arbitrary: acc) auto

lemma hd_split_acc:
  "hd (split_acc c acc s) = rev acc @ takeWhile (\<lambda>x. x \<noteq> c) s"
  by (induction s arbitrary: acc) auto

lemma length_split_acc:
  "length (split_acc c acc s) = Suc (length (filter (\<lambda>x. x = c) s))"
  by (induction s arbitrary: acc) auto

lemma tl_split_acc:
  "tl (split_acc c acc s) =
     (if c \<in> set s then split_acc c [] (tl (dropWhile (\<lambda>x. x \<noteq> c) s)) else [])"
  by (induction s arbitrary: acc) auto

lemma split_has_second:
  "(Suc 0 < length (py_split c s)) = (c \<in> set s)"
  by (simp add: py_split_def length_split_acc filter_empty_conv)

lemma split_second:
  assumes "c \<in> set s"
  shows "py_split c s ! Suc 0 = takeWhile (\<lambda>x. x \<noteq> c) (tl (dropWhile (\<lambda>x. x \<noteq> c) s))"
proof -
  have ne: "py_split c s \<noteq> []"
    by (simp add: py_split_def split_acc_nonempty)
  have "py_split c s ! Suc 0 = hd (tl (py_split c s))"
    using ne assms split_has_second [of c s]
    by (cases "py_split c s") (auto simp: hd_conv_nth)
  also have "\<dots> = hd (split_acc c [] (tl (dropWhile (\<lambda>x. x \<noteq> c) s)))"
    using assms by (simp add: py_split_def tl_split_acc)
  finally show ?thesis by (simp add: hd_split_acc)
qed

lemma split_first: "hd (py_split c s) = takeWhile (\<lambda>x. x \<noteq> c) s"
  by (simp add: py_split_def hd_split_acc)

lemma resolve_unnamed:
  "resolve_bucket_measurement None e =
     (takeWhile (\<lambda>x. x \<noteq> CHR ''/'') e,
      if CHR ''/'' \<in> set e
      then Some (takeWhile (\<lambda>x. x \<noteq> CHR ''/'') (tl (dropWhile (\<lambda>x. x \<noteq> CHR ''/'') e)))
      else None)"
  by (simp add: resolve_bucket_measurement_def Let_def split_first split_has_second
      split_second)

lemma resolve_empty_name:
  "resolve_bucket_measurement (Some []) e = resolve_bucket_measurement None e"
  by (simp add: resolve_bucket_measurement_def)

subsection \<open>The resolution rule\<close>

lemma resolve_named:
  "name_truthy nm \<Longrightarrow> resolve_bucket_measurement nm e = (the nm, Some e)"
  by (cases nm) (auto simp: name_truthy_def resolve_bucket_measurement_def)

lemma resolve_not_named:
  "\<not> name_truthy nm \<Longrightarrow> resolve_bucket_measurement nm e = resolve_bucket_measurement None e"
  by (cases nm) (auto simp: name_truthy_def resolve_empty_name)

text \<open>
  With at most one slash in the endpoint the piece after the first slash is all
  that follows it, and the code agrees with the rule as the specification words it.
\<close>

lemma takeWhile_all_when_absent:
  "c \<notin> set s \<Longrightarrow> takeWhile (\<lambda>x. x \<noteq> c) s = s"
  by (induction s) auto

lemma rest_has_no_separator:
  "length (filter (\<lambda>x. x = c) s) \<le> 1 \<Longrightarrow> c \<in> set s \<Longrightarrow>
     c \<notin> set (tl (dropWhile (\<lambda>x. x \<noteq> c) s))"
proof (induction s)
  case Nil
  then show ?case by simp
next
  case (Cons x xs)
  show ?case
  proof (cases "x = c")
    case True
    with Cons.prems have "filter (\<lambda>y. y = c) xs = []" by simp
    then have "c \<notin> set xs" by (auto simp: filter_empty_conv)
    with True show ?thesis by simp
  next
    case False
    with Cons show ?thesis by simp
  qed
qed

lemma resolve_agrees_single_slash:
  assumes "length (filter (\<lambda>x. x = CHR ''/'') e) \<le> 1"
  shows "resolve_bucket_measurement nm e = spec_resolve nm e"
proof (cases "name_truthy nm")
  case True
  then show ?thesis by (simp add: resolve_named spec_resolve_def)
next
  case False
  show ?thesis
  proof (cases "CHR ''/'' \<in> set e")
    case True
    have "CHR ''/'' \<notin> set (tl (dropWhile (\<lambda>x. x \<noteq> CHR ''/'') e))"
      using assms True by (rule rest_has_no_separator)
    then show ?thesis
      using False True
      by (simp add: resolve_not_named resolve_unnamed spec_resolve_def
          takeWhile_all_when_absent)
  next
    case no_slash: False
    with False show ?thesis
      by (simp add: resolve_not_named resolve_unnamed spec_resolve_def)
  qed
qed

text \<open>
  C3, as the claim states it, fails: for the endpoint \<open>a/b/c\<close> and no adapter
  name the text after the first slash is \<open>b/c\<close>, and the code yields the
  measurement \<open>b\<close>.
\<close>

theorem resolve_two_slashes_counterexample:
  "resolve_bucket_measurement None ''a/b/c'' = (''a'', Some ''b'')
   \<and> spec_resolve None ''a/b/c'' = (''a'', Some ''b/c'')
   \<and> resolve_bucket_measurement None ''a/b/c'' \<noteq> spec_resolve None ''a/b/c''"
  by (simp add: resolve_bucket_measurement_def spec_resolve_def py_split_def
      name_truthy_def)

text \<open>
  C3 (amended): endpoint resolution yields the adapter name and the endpoint
  whenever the adapter carries a non-empty name, whatever slashes the endpoint
  has; otherwise the bucket is the text before the first slash and the
  measurement is the text between the first slash and the next one (or the end
  of the endpoint), absent when the endpoint has no slash.
\<close>

theorem resolve_bucket_measurement_rule:
  "resolve_bucket_measurement nm e =
     (if name_truthy nm then (the nm, Some e)
      else (takeWhile (\<lambda>x. x \<noteq> CHR ''/'') e,
            if CHR ''/'' \<in> set e
            then Some (takeWhile (\<lambda>x. x \<noteq> CHR ''/'')
                         (tl (dropWhile (\<lambda>x. x \<noteq> CHR ''/'') e)))
            else None))"
  by (simp add: resolve_named resolve_not_named resolve_unnamed)

theorem resolve_bucket_measurement_rule_witness:
  "resolve_bucket_measurement (Some ''db'') ''x/y'' = (''db'', Some ''x/y'')
   \<and> resolve_bucket_measurement None ''bucket/meas/rest'' = (''bucket'', Some ''meas'')
   \<and> resolve_bucket_measurement None ''bucket'' = (''bucket'', None)"
  using resolve_bucket_measurement_rule [of "Some ''db''" "''x/y''"]
    resolve_bucket_measurement_rule [of None "''bucket/meas/rest''"]
    resolve_bucket_measurement_rule [of None "''bucket''"]
  by (simp add: name_truthy_def)

section \<open>Properties of the write path\<close>

subsection \<open>Tags and fields of a point\<close>

lemma tag_calls_single:
  "dict_get item idx = Some v \<Longrightarrow> idx \<noteq> time_field \<Longrightarrow>
     tag_calls lib time_field item [idx] = [(if is_primitive v then idx else str_of lib v, v)]"
  by simp

lemma tag_calls_primitive_keys:
  "list_all (\<lambda>kv. is_primitive (snd kv)) item \<Longrightarrow>
     map fst (tag_calls lib time_field item index) =
       filter (\<lambda>idx. dict_has item idx \<and> idx \<noteq> time_field) index"
proof (induction index)
  case Nil
  then show ?case by simp
next
  case (Cons idx rest)
  have prim: "dict_get item idx = Some v \<Longrightarrow> is_primitive v" for v
    using Cons.prems by (induction item) (auto split: if_splits)
  show ?case
    using Cons prim by (auto simp: dict_has_def split: option.splits)
qed

lemma field_calls_single:
  "key \<notin> set index \<Longrightarrow> key \<noteq> ''measurement'' \<Longrightarrow> key \<noteq> time_field \<Longrightarrow>
     field_calls lib index time_field [(key, v)] =
       [(key, if is_primitive v then v else PStr (str_of lib v))]"
  by simp

text \<open>
  C1: every index key that is present in the record and differs from the time
  field is attached as a tag under that key, also when its value is not
  primitive. The code does not do this for a value that is not primitive: for
  the record \<open>{"k": None}\<close> written with \<open>index = ["k"]\<close> it assigns
  \<open>str(value)\<close> to the loop variable \<open>idx\<close> and attaches the tag under the key
  \<open>None\<close>, the text of the value, so the key \<open>k\<close> is lost. The field loop
  right below stringifies the value and keeps the key (second conjunct).
\<close>

theorem tag_key_replaced_by_value_text:
  "pt_tags (build_point lib m [''k''] ''_time'' [(''k'', PNone)]) = [(''None'', PNone)]
   \<and> pt_fields (build_point lib m [] ''_time'' [(''k'', PNone)]) = [(''k'', PStr ''None'')]"
  by (simp add: build_point_def str_of_def)

subsection \<open>The outcome of put\<close>

lemma put_write_raises:
  assumes "fst (ensure_bucket_exists bk ad (fst (resolve_bucket_measurement (ad_name ad) ep)))
             = Inr ()"
    and "bk_write bk (fst (resolve_bucket_measurement (ad_name ad) ep))
           (put_points lib ad ep data index tf) = Some e"
  shows "fst (put lib bk ad ep data index tf)
           = Inr \<lparr>success_count = 0, failure_count = length data\<rparr>"
  using assms by (auto simp: put_def Let_def split: prod.splits sum.splits)

lemma put_write_returns:
  assumes "fst (ensure_bucket_exists bk ad (fst (resolve_bucket_measurement (ad_name ad) ep)))
             = Inr ()"
    and "bk_write bk (fst (resolve_bucket_measurement (ad_name ad) ep))
           (put_points lib ad ep data index tf) = None"
  shows "fst (put lib bk ad ep data index tf)
           = Inr \<lparr>success_count = length data, failure_count = 0\<rparr>"
  using assms by (auto simp: put_def Let_def split: prod.splits sum.splits)

lemma put_never_partial:
  assumes "fst (put lib bk ad ep data index tf) = Inr r"
  shows "r = \<lparr>success_count = length data, failure_count = 0\<rparr>
         \<or> r = \<lparr>success_count = 0, failure_count = length data\<rparr>"
  using assms
  by (auto simp: put_def Let_def split: prod.splits sum.splits option.splits)

lemma put_raises_only_before_write:
  assumes "fst (put lib bk ad ep data index tf) = Inl e"
  shows "fst (ensure_bucket_exists bk ad (fst (resolve_bucket_measurement (ad_name ad) ep)))
           = Inl e"
  using assms
  by (auto simp: put_def Let_def split: prod.splits sum.splits option.splits)

text \<open>
  C2: in a \<open>put\<close> of N records that reaches its batch write (the bucket was found
  or created without an exception), an exception raised by the write gives the
  outcome \<open>{success_count: 0, failure_count: N}\<close> and a write that returns gives
  \<open>{success_count: N, failure_count: 0}\<close>; whenever \<open>put\<close> returns an outcome it is
  one of these two, never a partial count.
\<close>

theorem put_all_or_nothing:
  "(fst (ensure_bucket_exists bk ad (fst (resolve_bucket_measurement (ad_name ad) ep)))
      = Inr () \<longrightarrow>
      (\<forall>e. bk_write bk (fst (resolve_bucket_measurement (ad_name ad) ep))
             (put_points lib ad ep data index tf) = Some e \<longrightarrow>
           fst (put lib bk ad ep data index tf)
             = Inr \<lparr>success_count = 0, failure_count = length data\<rparr>)
      \<and> (bk_write bk (fst (resolve_bucket_measurement (ad_name ad) ep))
             (put_points lib ad ep data index tf) = None \<longrightarrow>
           fst (put lib bk ad ep data index tf)
             = Inr \<lparr>success_count = length data, failure_count = 0\<rparr>))
   \<and> (\<forall>r. fst (put lib bk ad ep data index tf) = Inr r \<longrightarrow>
          r = \<lparr>success_count = length data, failure_count = 0\<rparr>
          \<or> r = \<lparr>success_count = 0, failure_count = length data\<rparr>)"
  using put_write_raises [of bk ad ep lib data index tf]
    put_write_returns [of bk ad ep lib data index tf]
    put_never_partial [of lib bk ad ep data index tf]
  by blast

lemma ensure_ok_backend:
  "fst (ensure_bucket_exists ok_backend ad b) = Inr ()"
  by (simp add: ensure_bucket_exists_def ok_backend_def)

lemma ensure_write_fails:
  "fst (ensure_bucket_exists write_fails ad b) = Inr ()"
  by (simp add: ensure_bucket_exists_def write_fails_def ok_backend_def)

theorem put_all_or_nothing_witness:
  "fst (put example_lib write_fails adapter0 ''b/m''
          [[(''v'', PInt 1)], [(''v'', PInt 2)], [(''v'', PInt 3)]] [] ''_time'')
     = Inr \<lparr>success_count = 0, failure_count = 3\<rparr>
   \<and> fst (put example_lib ok_backend adapter0 ''b/m''
          [[(''v'', PInt 1)], [(''v'', PInt 2)], [(''v'', PInt 3)]] [] ''_time'')
     = Inr \<lparr>success_count = 3, failure_count = 0\<rparr>"
proof -
  let ?data = "[[(''v'', PInt 1)], [(''v'', PInt 2)], [(''v'', PInt 3)]]"
  have w1: "bk_write write_fails (fst (resolve_bucket_measurement (ad_name adapter0) ''b/m''))
              (put_points example_lib adapter0 ''b/m'' ?data [] ''_time'') = Some boom"
    by (simp add: write_fails_def)
  have w2: "bk_write ok_backend (fst (resolve_bucket_measurement (ad_name adapter0) ''b/m''))
              (put_points example_lib adapter0 ''b/m'' ?data [] ''_time'') = None"
    by (simp add: ok_backend_def)
  show ?thesis
    using put_all_or_nothing [of write_fails adapter0 "''b/m''" example_lib ?data "[]" "''_time''"]
      put_all_or_nothing [of ok_backend adapter0 "''b/m''" example_lib ?data "[]" "''_time''"]
      w1 w2 ensure_ok_backend ensure_write_fails
    by simp
qed

section \<open>Properties of the read path\<close>

subsection \<open>The query text\<close>

lemma filter_conditions_are_equalities:
  \<open>map (\<lambda>(k, v). ''r["'' @ k @ ''"] == "'' @ str_of lib v @ ''"'') flt = map (equality lib) flt\<close>
  by (induction flt) (auto simp: equality_def)

lemma field_conditions_are_equalities:
  \<open>map (\<lambda>field. ''r._field == "'' @ field @ ''"'') projection = map field_equality projection\<close>
  by (induction projection) (auto simp: field_equality_def)

text \<open>
  C6: the query that \<open>get\<close> synthesizes is its clauses put one after the other in
  this order: the bucket over the full time range; then, only if the resolved
  measurement is present and not empty, the measurement filter; then, only if
  the filter mapping is not empty, one filter of all key/value equalities joined
  by \<open>and\<close>; then, only if the projection is not empty, one filter of the field
  name equalities joined by \<open>or\<close>; then, only if the limit is positive, the limit.
\<close>

theorem get_query_clause_order:
  "get_query lib bucket measurement flt projection limit
     = concat (spec_query_clauses lib bucket measurement flt projection limit)"
  unfolding get_query_def spec_query_clauses_def Let_def
    filter_conditions_are_equalities field_conditions_are_equalities
  by (simp add: bucket_clause_def measurement_clause_def filter_clause_def
      projection_clause_def limit_clause_def)

lemma show_nat_5: "show_nat 5 = ''5''"
  by code_simp

theorem get_query_clause_order_witness:
  \<open>get_query example_lib ''b'' (Some ''m'') [(''k'', PStr ''x''), (''j'', PStr ''y'')]
      [''f'', ''g''] 5
     = ''from(bucket: "b") |> range(start: 0)''
       @ '' |> filter(fn: (r) => r._measurement == "m")''
       @ '' |> filter(fn: (r) => r["k"] == "x" and r["j"] == "y")''
       @ '' |> filter(fn: (r) => r._field == "f" or r._field == "g")''
       @ '' |> limit(n: 5)''\<close>
  using get_query_clause_order [of example_lib "''b''" "Some ''m''"
      "[(''k'', PStr ''x''), (''j'', PStr ''y'')]" "[''f'', ''g'']" 5]
  by (simp add: spec_query_clauses_def bucket_clause_def measurement_clause_def
      filter_clause_def projection_clause_def limit_clause_def equality_def
      field_equality_def measurement_truthy_def str_opt_def str_of_def show_int_def
      show_nat_5)

text \<open>The query is the one sent to the store: what the store raises on it, \<open>get\<close> raises.\<close>

lemma get_sends_query:
  assumes "bk_query bk (get_query lib (fst (resolve_bucket_measurement (ad_name ad) ep))
             (snd (resolve_bucket_measurement (ad_name ad) ep)) flt projection limit) = Inl e"
  shows "fst (get lib bk ad ep flt projection limit tf as_df tz) = Inl e"
  using assms by (simp add: get_def Let_def)

subsection \<open>An empty answer of the store\<close>

lemma data_frame_empty: "data_frame [] = []"
  by (simp add: data_frame_def)

lemma pivot_of_empty_frame:
  "pd_pivot lib [] (tag_fields @ [''_time'']) ''_field'' ''_value''
     = Inl (Exn KeyError (hd (tag_fields @ [''_time''])))"
  by (cases tag_fields) (simp_all add: pd_pivot_def)

lemma get_wide_no_records:
  assumes "concat result = []"
  shows "get_wide lib result tz = Inl (Exn KeyError ''_time'')"
proof -
  have df: "data_frame (concat result) = []"
    by (simp only: assms data_frame_empty)
  show ?thesis
    unfolding get_wide_def Let_def df by (simp add: pd_pivot_def)
qed

text \<open>
  C10: when the query of \<open>get\<close> returns no record at all, \<open>get\<close> raises: the frame
  made of no record has no column, the pivot asks for the column \<open>_time\<close> (and
  \<open>_field\<close>, \<open>_value\<close>) and raises \<open>KeyError\<close>, and nothing in \<open>get\<close> catches it.
  No frame and no list of rows is returned.
\<close>

theorem get_empty_result_raises:
  assumes "bk_query bk (get_query lib (fst (resolve_bucket_measurement (ad_name ad) ep))
             (snd (resolve_bucket_measurement (ad_name ad) ep)) flt projection limit)
             = Inr result"
    and "concat result = []"
  shows "fst (get lib bk ad ep flt projection limit tf as_df tz) = Inl (Exn KeyError ''_time'')"
proof -
  have "get_wide lib result tz = Inl (Exn KeyError ''_time'')"
    using assms(2) by (rule get_wide_no_records)
  with assms(1) show ?thesis
    by (simp add: get_def Let_def)
qed

theorem get_empty_result_raises_witness:
  "fst (get example_lib ok_backend adapter0 ''b/m'' [] [] 0 ''_time'' False False)
     = Inl (Exn KeyError ''_time'')"
proof -
  have q: "bk_query ok_backend
             (get_query example_lib (fst (resolve_bucket_measurement (ad_name adapter0) ''b/m''))
                (snd (resolve_bucket_measurement (ad_name adapter0) ''b/m'')) [] [] 0)
             = Inr []"
    by (simp add: ok_backend_def)
  show ?thesis
    using get_empty_result_raises [OF q, of "''_time''" False False] by simp
qed

subsection \<open>The conversion of cells\<close>

lemma try_convert_not_string:
  "(\<forall>s. x \<noteq> PStr s) \<Longrightarrow> try_convert_to_dict lib x = Inr x"
  by (cases x) (simp_all add: try_convert_to_dict_def)

lemma try_convert_other_string:
  "\<not> (startswith_brace s \<and> endswith_brace s) \<Longrightarrow>
     try_convert_to_dict lib (PStr s) = Inr (PStr s)"
  by (auto simp: try_convert_to_dict_def)

lemma try_convert_parsed:
  "startswith_brace s \<Longrightarrow> endswith_brace s \<Longrightarrow> py_literal_eval lib s = Inr v \<Longrightarrow>
     try_convert_to_dict lib (PStr s) = Inr v"
  by (simp add: try_convert_to_dict_def)

lemma try_convert_caught:
  "startswith_brace s \<Longrightarrow> endswith_brace s \<Longrightarrow> py_literal_eval lib s = Inl e \<Longrightarrow>
     exn_cls e = ValueError \<or> exn_cls e = SyntaxError \<Longrightarrow>
     try_convert_to_dict lib (PStr s) = Inr (PStr s)"
  by (auto simp: try_convert_to_dict_def)

lemma try_convert_not_caught:
  "startswith_brace s \<Longrightarrow> endswith_brace s \<Longrightarrow> py_literal_eval lib s = Inl e \<Longrightarrow>
     exn_cls e \<noteq> ValueError \<Longrightarrow> exn_cls e \<noteq> SyntaxError \<Longrightarrow>
     try_convert_to_dict lib (PStr s) = Inl e"
  by (simp add: try_convert_to_dict_def)

text \<open>Every cell of what \<open>get\<close> returns went through the conversion.\<close>

lemma map_exn_result:
  "map_exn f xs = Inr ys \<Longrightarrow> list_all2 (\<lambda>x y. f x = Inr y) xs ys"
  by (induction xs arbitrary: ys) (auto split: sum.splits)

lemma frame_map_cells:
  assumes "frame_map f df = Inr df'"
  shows "list_all2 (\<lambda>col col'. fst col' = fst col
           \<and> list_all2 (\<lambda>x y. f x = Inr y) (snd col) (snd col')) df df'"
proof -
  have "list_all2 (\<lambda>col col'.
          (case col of (c, cells) \<Rightarrow>
             case map_exn f cells of Inl e \<Rightarrow> Inl e | Inr cells' \<Rightarrow> Inr (c, cells')) = Inr col')
          df df'"
    using assms unfolding frame_map_def by (rule map_exn_result)
  then show ?thesis
    by (rule list_all2_mono) (auto split: sum.splits dest: map_exn_result)
qed

lemma get_cells_converted:
  assumes "fst (get lib bk ad ep flt projection limit ''_time'' True tz) = Inr (AsFrame df')"
  shows "\<exists>result df.
           get_wide lib result tz = Inr df
           \<and> list_all2 (\<lambda>col col'. fst col' = fst col
                 \<and> list_all2 (\<lambda>x y. try_convert_to_dict lib x = Inr y) (snd col) (snd col'))
               df df'"
  using assms
  by (auto simp: get_def Let_def split: sum.splits dest: frame_map_cells)

text \<open>
  C9: a cell that is a string looking like a mapping is parsed, and when the
  parse fails the original string is returned unchanged. The code does not do
  this for every failure: the text \<open>{[1]: 2}\<close> looks like a mapping,
  \<open>ast.literal_eval\<close> fails on it with \<open>TypeError\<close> (a list cannot be a key),
  and the handler, written for \<open>ValueError\<close> and \<open>SyntaxError\<close>, does not
  catch it: the exception leaves \<open>try_convert_to_dict\<close> where the comment in the
  handler promises the original string.
\<close>

theorem try_convert_type_error_escapes:
  assumes "py_literal_eval lib ''{[1]: 2}'' = Inl (Exn TypeError msg)"
  shows "try_convert_to_dict lib (PStr ''{[1]: 2}'') = Inl (Exn TypeError msg)"
  using assms
  by (simp add: try_convert_to_dict_def startswith_brace_def endswith_brace_def)

theorem try_convert_type_error_escapes_witness:
  "try_convert_to_dict example_lib (PStr ''{[1]: 2}'')
     = Inl (Exn TypeError ''unhashable type: list'')"
proof -
  have e: "py_literal_eval example_lib ''{[1]: 2}'' = Inl (Exn TypeError ''unhashable type: list'')"
    by (simp add: example_lib_def)
  show ?thesis
    by (rule try_convert_type_error_escapes [OF e])
qed

section \<open>Errors of update, delete and reset\<close>

lemma delete_never_raises:
  "fst (delete lib bk ad ep start stop tags) = Inr True
   \<or> fst (delete lib bk ad ep start stop tags) = Inr False"
  by (simp add: delete_def delete_failed_def Let_def split: sum.splits option.splits)

lemma delete_bad_start:
  "py_strftime lib start = Inl e \<Longrightarrow>
     delete lib bk ad ep start stop tags
       = (Inr False, emit ad LError (''Failed to delete data: '' @ exn_msg e))"
  by (simp add: delete_def delete_failed_def Let_def)

lemma delete_bad_stop:
  "py_strftime lib start = Inr fs \<Longrightarrow> py_strftime lib stop = Inl e \<Longrightarrow>
     delete lib bk ad ep start stop tags
       = (Inr False, emit ad LError (''Failed to delete data: '' @ exn_msg e))"
  by (simp add: delete_def delete_failed_def Let_def)

lemma delete_backend_error:
  assumes "py_strftime lib start = Inr fs" and "py_strftime lib stop = Inr ft"
    and "bk_delete bk fs ft
           (delete_predicate lib (snd (resolve_bucket_measurement (ad_name ad) ep)) tags)
           (fst (resolve_bucket_measurement (ad_name ad) ep)) (ad_org ad) = Some e"
  shows "delete lib bk ad ep start stop tags
           = (Inr False, emit ad LError (''Failed to delete data: '' @ exn_msg e))"
  using assms by (simp add: delete_def delete_failed_def Let_def)

lemma update_write_error:
  assumes "fst (ensure_bucket_exists bk ad (fst (resolve_bucket_measurement (ad_name ad) ep)))
             = Inr ()"
    and "bk_write bk (fst (resolve_bucket_measurement (ad_name ad) ep))
           (put_points lib ad ep [item] index tf) = Some e"
  shows "fst (update lib bk ad ep item index tf) = Inr False"
    and "ad_logger ad \<Longrightarrow>
           Log LError (''Failed to put data in InfluxDB: '' @ exn_msg e)
             \<in> set (snd (update lib bk ad ep item index tf))"
  using assms
  by (auto simp: update_def put_def Let_def emit_def split: prod.splits sum.splits)

lemma update_propagates_bucket_error:
  assumes "fst (ensure_bucket_exists bk ad (fst (resolve_bucket_measurement (ad_name ad) ep)))
             = Inl e"
  shows "fst (update lib bk ad ep item index tf) = Inl e"
  using assms
  by (auto simp: update_def put_def Let_def split: prod.splits sum.splits)

lemma reset_reraises:
  assumes "bk_find_bucket bk
             (case endpoint of
                None \<Rightarrow> ad_name ad
              | Some ep \<Rightarrow> Some (fst (resolve_bucket_measurement (ad_name ad) ep)))
             = Inr True"
    and "bk_delete_bucket bk
           (case endpoint of
              None \<Rightarrow> ad_name ad
            | Some ep \<Rightarrow> Some (fst (resolve_bucket_measurement (ad_name ad) ep)))
           = Some e"
  shows "reset bk ad endpoint
           = (Inl e, emit ad LError (''Failed to delete bucket: '' @ exn_msg e))"
  using assms by (simp add: reset_def Let_def)

lemma reset_propagates_lookup_error:
  assumes "bk_find_bucket bk
             (case endpoint of
                None \<Rightarrow> ad_name ad
              | Some ep \<Rightarrow> Some (fst (resolve_bucket_measurement (ad_name ad) ep)))
             = Inl e"
  shows "fst (reset bk ad endpoint) = Inl e"
  using assms by (simp add: reset_def Let_def)

text \<open>
  C7, as the claim states it, fails: when the deletion of the bucket raises,
  \<open>reset\<close> logs the exception and raises it again (\<open>raise e\<close> in its handler); the
  caller gets the exception, not a status value.
\<close>

theorem reset_reraises_counterexample:
  "reset delete_bucket_fails adapter0 (Some ''b/m'')
     = (Inl boom, [Log LError ''Failed to delete bucket: boom''])"
  by (simp add: reset_def Let_def delete_bucket_fails_def ok_backend_def adapter0_def
      emit_def boom_def)

text \<open>
  C7 (amended): \<open>delete\<close> never raises, and an error of the store during its
  deletion is logged and turned into \<open>False\<close>; an error of the store during the
  batch write of \<open>update\<close> is logged and turned into \<open>False\<close>; an error of the store
  during the bucket deletion of \<open>reset\<close>, called with an endpoint or without one,
  is logged and raised again to the caller.
\<close>

theorem operation_failures:
  "(fst (delete lib bk ad ep start stop tags) = Inr True
      \<or> fst (delete lib bk ad ep start stop tags) = Inr False)
   \<and> (\<forall>fs ft e.
        py_strftime lib start = Inr fs \<and> py_strftime lib stop = Inr ft
        \<and> bk_delete bk fs ft
            (delete_predicate lib (snd (resolve_bucket_measurement (ad_name ad) ep)) tags)
            (fst (resolve_bucket_measurement (ad_name ad) ep)) (ad_org ad) = Some e
        \<longrightarrow> delete lib bk ad ep start stop tags
              = (Inr False, emit ad LError (''Failed to delete data: '' @ exn_msg e)))
   \<and> (\<forall>e.
        fst (ensure_bucket_exists bk ad (fst (resolve_bucket_measurement (ad_name ad) ep)))
          = Inr ()
        \<and> bk_write bk (fst (resolve_bucket_measurement (ad_name ad) ep))
            (put_points lib ad ep [item] index tf) = Some e
        \<longrightarrow> fst (update lib bk ad ep item index tf) = Inr False
            \<and> (ad_logger ad \<longrightarrow>
                 Log LError (''Failed to put data in InfluxDB: '' @ exn_msg e)
                   \<in> set (snd (update lib bk ad ep item index tf))))
   \<and> (\<forall>endpoint e.
        bk_find_bucket bk
          (case endpoint of
             None \<Rightarrow> ad_name ad
           | Some ep' \<Rightarrow> Some (fst (resolve_bucket_measurement (ad_name ad) ep')))
          = Inr True
        \<and> bk_delete_bucket bk
            (case endpoint of
               None \<Rightarrow> ad_name ad
             | Some ep' \<Rightarrow> Some (fst (resolve_bucket_measurement (ad_name ad) ep')))
            = Some e
        \<longrightarrow> reset bk ad endpoint
              = (Inl e, emit ad LError (''Failed to delete bucket: '' @ exn_msg e)))"
  using delete_never_raises [of lib bk ad ep start stop tags]
    delete_backend_error [of lib start _ stop _ bk ad ep tags]
    update_write_error [of bk ad ep lib item index tf]
    reset_reraises [of bk ad]
  by blast

theorem operation_failures_witness:
  "delete example_lib delete_fails adapter0 ''b/m'' (PTime 0) (PTime 1) [(''host'', PStr ''a'')]
     = (Inr False, [Log LError ''Failed to delete data: boom''])
   \<and> fst (update example_lib write_fails adapter0 ''b/m'' [(''v'', PInt 1)] [] ''_time'')
       = Inr False
   \<and> Log LError ''Failed to put data in InfluxDB: boom''
       \<in> set (snd (update example_lib write_fails adapter0 ''b/m'' [(''v'', PInt 1)] []
                     ''_time''))
   \<and> reset delete_bucket_fails adapter0 (Some ''b/m'')
       = (Inl boom, [Log LError ''Failed to delete bucket: boom''])
   \<and> reset delete_bucket_fails adapter_db None
       = (Inl boom, [Log LError ''Failed to delete bucket: boom''])"
proof -
  let ?fs = "''1970-01-01T00:00:00.000000Z''"
  have s: "py_strftime example_lib (PTime 0) = Inr ?fs"
    "py_strftime example_lib (PTime 1) = Inr ?fs"
    by (simp_all add: example_lib_def)
  have d: "bk_delete delete_fails ?fs ?fs
             (delete_predicate example_lib
                (snd (resolve_bucket_measurement (ad_name adapter0) ''b/m''))
                [(''host'', PStr ''a'')])
             (fst (resolve_bucket_measurement (ad_name adapter0) ''b/m'')) (ad_org adapter0)
             = Some boom"
    by (simp add: delete_fails_def)
  have w: "bk_write write_fails (fst (resolve_bucket_measurement (ad_name adapter0) ''b/m''))
             (put_points example_lib adapter0 ''b/m'' [[(''v'', PInt 1)]] [] ''_time'')
             = Some boom"
    by (simp add: write_fails_def)
  have f: "bk_find_bucket delete_bucket_fails b = Inr True"
    "bk_delete_bucket delete_bucket_fails b = Some boom" for b
    by (simp_all add: delete_bucket_fails_def ok_backend_def)
  have lg: "ad_logger adapter0"
    by (simp add: adapter0_def)
  note inst1 = operation_failures [of example_lib delete_fails adapter0 "''b/m''" "PTime 0"
      "PTime 1" "[(''host'', PStr ''a'')]"]
  note inst2 = operation_failures [of example_lib write_fails adapter0 "''b/m''" "PTime 0"
      "PTime 1" "[]" "[(''v'', PInt 1)]" "[]" "''_time''"]
  note inst3 = operation_failures [of example_lib delete_bucket_fails adapter0 "''b/m''"]
  note inst4 = operation_failures [of example_lib delete_bucket_fails adapter_db "''b/m''"]
  have 1: "delete example_lib delete_fails adapter0 ''b/m'' (PTime 0) (PTime 1)
             [(''host'', PStr ''a'')]
           = (Inr False, emit adapter0 LError (''Failed to delete data: '' @ exn_msg boom))"
    using inst1 s d by blast
  have 2: "fst (update example_lib write_fails adapter0 ''b/m'' [(''v'', PInt 1)] [] ''_time'')
             = Inr False
           \<and> Log LError (''Failed to put data in InfluxDB: '' @ exn_msg boom)
               \<in> set (snd (update example_lib write_fails adapter0 ''b/m'' [(''v'', PInt 1)]
                     [] ''_time''))"
    using inst2 w ensure_write_fails lg by blast
  have 3: "reset delete_bucket_fails adapter0 (Some ''b/m'')
           = (Inl boom, emit adapter0 LError (''Failed to delete bucket: '' @ exn_msg boom))"
    using inst3 f by blast
  have 4: "reset delete_bucket_fails adapter_db None
           = (Inl boom, emit adapter_db LError (''Failed to delete bucket: '' @ exn_msg boom))"
    using inst4 f by blast
  show ?thesis
    using 1 2 3 4 by (simp add: emit_def adapter0_def adapter_db_def boom_def)
qed

section \<open>What connect returns\<close>




lemma influx_connect_client_error:
  "bk_client bk = Some e \<Longrightarrow> fst (influx_connect bk ad) = Inl e"
  by (simp add: influx_connect_def)



lemma mysql_connect_never_self:
  "fst (mysql_connect bk ad) \<noteq> Inr RetSelf"
  by (simp add: mysql_connect_def split: option.splits)




section \<open>Properties of the object loader\<close>

subsection \<open>The unbound root type\<close>

lemma root_type_unbound: "''ObjMOSAIC'' \<notin> set core_globals"
  by (simp add: core_globals_def)

lemma construct_raises: "construct lib reg obj_copy = Inl (name_error ''ObjMOSAIC'')"
  by (simp add: construct_def root_type_unbound)

lemma from_dict_only_name_error:
  "from_dict lib reg v = Inl e \<Longrightarrow> e = name_error ''ObjMOSAIC''"
  "from_dict_items lib reg d = Inl e \<Longrightarrow> e = name_error ''ObjMOSAIC''"
  "from_dict_list lib reg xs = Inl e \<Longrightarrow> e = name_error ''ObjMOSAIC''"
  by (induction lib reg v and lib reg d and lib reg xs
      rule: from_dict_from_dict_items_from_dict_list.induct)
    (auto simp: construct_raises split: sum.splits if_splits)

lemma from_dict_items_keys:
  "from_dict_items lib reg d = Inr d' \<Longrightarrow> map fst d' = map fst d"
proof (induction d arbitrary: d')
  case Nil
  then show ?case by simp
next
  case (Cons kv kvs)
  then show ?case by (auto split: sum.splits)
qed

lemma dict_has_keys: "dict_has d k = (k \<in> set (map fst d))"
  by (induction d) (auto simp: dict_has_def)

lemma from_dict_discriminated:
  assumes "dict_has d ''cls''"
  shows "from_dict lib reg (PDict d) = Inl (name_error ''ObjMOSAIC'')"
proof (cases "from_dict_items lib reg d")
  case (Inl e)
  then show ?thesis
    using from_dict_only_name_error(2) [OF Inl] by simp
next
  case (Inr obj_copy)
  then have "dict_has obj_copy ''cls''"
    using assms from_dict_items_keys [OF Inr] by (simp add: dict_has_keys)
  with Inr show ?thesis
    by (simp add: construct_raises)
qed

lemma merge_cls_has_discriminator: "dict_has (merge_cls n fs) ''cls''"
  by (simp add: merge_cls_def dict_has_def split: option.splits)

lemma from_dict_without_discriminator:
  "\<not> dict_has d ''cls'' \<Longrightarrow> from_dict_items lib reg d = Inr d' \<Longrightarrow>
     from_dict lib reg (PDict d) = Inr (PDict d)"
  using from_dict_items_keys [of lib reg d d'] by (simp add: dict_has_keys)

subsection \<open>The round trip\<close>

text \<open>
  C4: serializing a typed object with \<open>to_document\<close> and rebuilding it with
  \<open>build_from_value\<close> yields the object. The code does not do this for any
  object: what \<open>to_document\<close> returns always has the key \<open>cls\<close>, and for a
  mapping with that key \<open>from_dict\<close> evaluates the global name \<open>ObjMOSAIC\<close>, which
  \<open>core.py\<close> neither defines nor imports, so the call raises \<open>NameError\<close>,
  whatever the class of the object, its fields and the class table.
\<close>

theorem from_dict_of_document_raises:
  "from_dict lib reg (to_document lib n fs) = Inl (name_error ''ObjMOSAIC'')"
  unfolding to_document_def
  by (rule from_dict_discriminated) (rule merge_cls_has_discriminator)

lemma from_dict_of_document_example:
  "to_document example_lib ''A'' [(''name'', PStr ''db'')]
     = PDict [(''cls'', PStr ''A''), (''name'', PStr ''db'')]"
  "cls_sub_dict registry0 ''A'' = Some (plain_ctor ''A'')"
  "from_dict example_lib registry0 (PDict [(''cls'', PStr ''A''), (''name'', PStr ''db'')])
     \<noteq> Inr (PObj ''A'' [(''name'', PStr ''db'')])"
  by (simp_all add: to_document_def merge_cls_def example_lib_def cls_sub_dict_def
      registry0_def dict_has_def construct_raises)

subsection \<open>An unknown discriminator\<close>

text \<open>
  C5: for a document mapping whose discriminator names no known subclass,
  \<open>build_from_value\<close> fails with the resolution error, the \<open>ValueError\<close> of line
  66 saying that the name is not a subclass of the root type. The code fails,
  and returns no object, but not with that error: line 60 raises \<open>NameError\<close> for
  the unbound name \<open>ObjMOSAIC\<close> before the discriminator is looked up, so the
  \<open>ValueError\<close> of line 66 is never reached.
\<close>

theorem unknown_discriminator_name_error:
  assumes "dict_get d ''cls'' = Some v"
    and "\<forall>n. v = PStr n \<longrightarrow> cls_sub_dict reg n = None"
  shows "from_dict lib reg (PDict d) = Inl (name_error ''ObjMOSAIC'')
         \<and> exn_cls (name_error ''ObjMOSAIC'') \<noteq> ValueError"
proof -
  have "dict_has d ''cls''"
    using assms(1) by (simp add: dict_has_def)
  then have "from_dict lib reg (PDict d) = Inl (name_error ''ObjMOSAIC'')"
    by (rule from_dict_discriminated)
  moreover have "exn_cls (name_error ''ObjMOSAIC'') \<noteq> ValueError"
    by (simp add: name_error_def)
  ultimately show ?thesis
    by (rule conjI)
qed

theorem unknown_discriminator_name_error_witness:
  "from_dict example_lib registry0 (PDict [(''cls'', PStr ''Nope''), (''x'', PInt 1)])
     = Inl (Exn NameError (''name '' @ [CHR 0x27] @ ''ObjMOSAIC'' @ [CHR 0x27]
                            @ '' is not defined''))"
proof -
  have g: "dict_get [(''cls'', PStr ''Nope''), (''x'', PInt 1)] ''cls'' = Some (PStr ''Nope'')"
    by simp
  have u: "\<forall>n. PStr ''Nope'' = PStr n \<longrightarrow> cls_sub_dict registry0 n = None"
    by (simp add: cls_sub_dict_def registry0_def)
  show ?thesis
    using unknown_discriminator_name_error [OF g u, of example_lib]
    by (simp add: name_error_def)
qed

end
